theory Spec2Isabelle
  imports Complex_Main
begin

section \<open>Python values shared by both hardware layers\<close>

text \<open>
  The repository holds two variants of one hardware abstraction layer:
  \<^verbatim>\<open>hw_layer.py\<close> (gpiozero devices, created at import time) and
  \<^verbatim>\<open>hw_layer_chatgpt.py\<close> (one global lgpio chip handle). Both are embedded here.
  Where the two files use the same function name, the function of
  \<^verbatim>\<open>hw_layer_chatgpt.py\<close> carries the suffix \<open>_chatgpt\<close>.

  Python floats are modelled as reals, Python ints as \<open>int\<close>. An exception is a value
  of type \<open>exn\<close>; a computation that may raise returns \<open>exn + 'a\<close> with \<open>Inl\<close> the
  exception. A function whose every raising call sits inside a \<^verbatim>\<open>try\<close> that
  catches \<^verbatim>\<open>Exception\<close> cannot raise and has a plain result type. Text written
  with \<^verbatim>\<open>print\<close> is left out unless it is the only output of a function.
\<close>

datatype exn = OSError | StatisticsError | TypeError | ValueError | LgpioError | OtherError

text \<open>
  Python's \<^verbatim>\<open>round(x, n)\<close>: to the nearest multiple of \<open>10\<^sup>-\<^sup>n\<close>, an exact tie
  going to the even neighbour.
\<close>

definition round_half_even :: "real \<Rightarrow> int" where
  "round_half_even x =
     (let f = \<lfloor>x\<rfloor> in
      if x - of_int f < 1 / 2 then f
      else if 1 / 2 < x - of_int f then f + 1
      else if even f then f else f + 1)"

definition round_py :: "real \<Rightarrow> nat \<Rightarrow> real" where
  "round_py x n = of_int (round_half_even (x * 10 ^ n)) / 10 ^ n"

text \<open>
  \<^verbatim>\<open>statistics.mean\<close> and \<^verbatim>\<open>statistics.stdev\<close> of the standard library: the mean
  raises StatisticsError on no data, the sample standard deviation (divisor \<open>n - 1\<close>)
  raises it on fewer than two data points.
\<close>

definition mean :: "real list \<Rightarrow> exn + real" where
  "mean xs = (if xs = [] then Inl StatisticsError
              else Inr (sum_list xs / of_nat (length xs)))"

definition stdev :: "real list \<Rightarrow> exn + real" where
  "stdev xs =
     (if length xs < 2 then Inl StatisticsError
      else let m = sum_list xs / of_nat (length xs)
           in Inr (sqrt (sum_list (map (\<lambda>x. (x - m)\<^sup>2) xs) / of_nat (length xs - 1))))"

section \<open>hw\_layer.py\<close>

subsection \<open>Colour name\<close>

fun get_color_name :: "int \<times> int \<times> int \<Rightarrow> string" where
  "get_color_name (r, g, b) =
     (if r > 200 \<and> g > 200 \<and> b > 200 then ''White''
      else if r < 30 \<and> g < 30 \<and> b < 30 then ''Black''
      else if r > g \<and> r > b then ''Red''
      else if g > r \<and> g > b then ''Green''
      else if b > r \<and> b > g then ''Blue''
      else if r > 100 \<and> g > 100 \<and> b < 50 then ''Yellow''
      else ''Unknown'')"

subsection \<open>Absorption class\<close>

definition analyze_absorption :: "real \<Rightarrow> string" where
  "analyze_absorption sigma =
     (if sigma > 12 / 10 then ''High''
      else if sigma > 5 / 10 then ''Medium''
      else ''Low'')"

subsection \<open>Filtered distance\<close>

text \<open>
  \<^verbatim>\<open>distance_sensor_obj\<close> is None or a gpiozero DistanceSensor. The sensor is the
  sequence of values its \<^verbatim>\<open>distance\<close> property yields, in metres: \<open>sensor i\<close> is
  the value of the \<open>i\<close>-th read. \<^verbatim>\<open>range(samples)\<close> is empty for a non-positive
  \<^verbatim>\<open>samples\<close>.
\<close>

definition in_envelope :: "real \<Rightarrow> bool" where
  "in_envelope r \<longleftrightarrow> 2 < r \<and> r < 400"

definition readings_of :: "(nat \<Rightarrow> real) \<Rightarrow> int \<Rightarrow> real list" where
  "readings_of sensor samples = map (\<lambda>i. sensor i * 100) [0..<nat samples]"

definition valid_readings_of :: "(nat \<Rightarrow> real) \<Rightarrow> int \<Rightarrow> real list" where
  "valid_readings_of sensor samples = filter in_envelope (readings_of sensor samples)"

definition measure_distance :: "(nat \<Rightarrow> real) option \<Rightarrow> int \<Rightarrow> exn + real \<times> real" where
  "measure_distance distance_sensor_obj samples =
     (case distance_sensor_obj of
        None \<Rightarrow> Inr (0, 0)
      | Some sensor \<Rightarrow>
          let valid_readings = valid_readings_of sensor samples in
          if valid_readings = [] then Inr (0, 0)
          else
            (case mean valid_readings of
               Inl e \<Rightarrow> Inl e
             | Inr m \<Rightarrow>
                 (case (if length valid_readings > 1 then stdev valid_readings else Inr 0) of
                    Inl e \<Rightarrow> Inl e
                  | Inr sd \<Rightarrow> Inr (round_py m 2, round_py sd 2))))"

subsection \<open>Thermal sensor\<close>

text \<open>
  \<^verbatim>\<open>mlx_sensor\<close> is None or an MLX90640 driver object. \<open>frames k\<close> is what the
  \<open>k\<close>-th call of \<^verbatim>\<open>getFrame\<close> does: raise, or fill the 768-element buffer;
  \<open>frame_calls\<close> counts the calls made. Only OSError (of which IOError is an alias)
  is caught.
\<close>

record mlx90640 =
  frames :: "nat \<Rightarrow> exn + real list"
  frame_calls :: nat
  temperature_ambient :: "exn + real"

record temperatures =
  ambient :: real
  object :: real

definition getFrame :: "mlx90640 \<Rightarrow> (exn + real list) \<times> mlx90640" where
  "getFrame m = (frames m (frame_calls m), m\<lparr>frame_calls := Suc (frame_calls m)\<rparr>)"

definition read_temperature ::
  "mlx90640 option \<Rightarrow> (exn + temperatures) \<times> mlx90640 option" where
  "read_temperature mlx_sensor =
     (case mlx_sensor of
        None \<Rightarrow> (Inr \<lparr>ambient = 25, object = 25\<rparr>, None)
      | Some m \<Rightarrow>
          (case getFrame m of (r, m') \<Rightarrow>
             (case (case r of
                      Inl e \<Rightarrow> Inl e
                    | Inr temps \<Rightarrow>
                        (case temperature_ambient m' of
                           Inl e \<Rightarrow> Inl e
                         | Inr a \<Rightarrow>
                             Inr \<lparr>ambient = round_py a 1,
                                  object = round_py (sum_list temps / 768) 1\<rparr>)) of
                Inl e \<Rightarrow>
                  (if e = OSError then (Inr \<lparr>ambient = 0, object = 0\<rparr>, Some m')
                   else (Inl e, Some m'))
              | Inr t \<Rightarrow> (Inr t, Some m'))))"

subsection \<open>Colour sensor\<close>

text \<open>
  \<^verbatim>\<open>tcs_sensor\<close> is None or a TCS34725 driver object, given by what reading its
  \<^verbatim>\<open>color_rgb_bytes\<close> property does. Every exception is caught.
\<close>

definition read_color :: "(exn + int \<times> int \<times> int) option \<Rightarrow> string" where
  "read_color tcs_sensor =
     (case tcs_sensor of
        None \<Rightarrow> ''N/A''
      | Some color_rgb_bytes \<Rightarrow>
          (case color_rgb_bytes of
             Inl e \<Rightarrow> ''Error''
           | Inr rgb \<Rightarrow> get_color_name rgb))"

subsection \<open>Buzzer and button\<close>

text \<open>
  \<^verbatim>\<open>buzzer_obj\<close> is None or a Buzzer, given by what its \<^verbatim>\<open>beep\<close> call does
  for a duration; the result lists the pulses sounded. \<^verbatim>\<open>button_obj\<close> is None or
  a Button, given by the value of \<^verbatim>\<open>is_pressed\<close>. Neither call is inside a
  \<^verbatim>\<open>try\<close>.
\<close>

definition buzzer_beep :: "(real \<Rightarrow> exn + unit) option \<Rightarrow> real \<Rightarrow> exn + real list" where
  "buzzer_beep buzzer_obj duration =
     (case buzzer_obj of
        None \<Rightarrow> Inr []
      | Some buzzer \<Rightarrow>
          (case buzzer duration of Inl e \<Rightarrow> Inl e | Inr _ \<Rightarrow> Inr [duration]))"

definition read_button :: "bool option \<Rightarrow> bool" where
  "read_button button_obj =
     (case button_obj of None \<Rightarrow> True | Some is_pressed \<Rightarrow> \<not> is_pressed)"

subsection \<open>Status display\<close>

text \<open>
  \<^verbatim>\<open>oled_device\<close> is None or an SSD1306 device, given by what drawing on its canvas
  does: return, or raise an exception, which comes with its text \<^verbatim>\<open>str(e)\<close>. The
  result is what reaches the outside: the text drawn at its pixel positions, or the text
  printed. The three arguments are taken already formatted.
\<close>

datatype oled_output = Drawn "((int \<times> int) \<times> string) list" | Printed string

definition update_physical_oled ::
  "(exn \<times> string + unit) option \<Rightarrow> string \<Rightarrow> string \<Rightarrow> string \<Rightarrow> oled_output" where
  "update_physical_oled oled_device distance shape material =
     (case oled_device of
        None \<Rightarrow>
          Printed (''--- OLED Sim ---'' @ [CHR 0x0A] @ ''Dist: '' @ distance @ [CHR 0x0A]
            @ ''Shape: '' @ shape @ [CHR 0x0A] @ ''Mat: '' @ material @ [CHR 0x0A]
            @ ''----------------'')
      | Some canvas \<Rightarrow>
          (case canvas of
             Inl (e, msg) \<Rightarrow> Printed (''Error writing to OLED: '' @ msg)
           | Inr _ \<Rightarrow>
               Drawn [((0, 0), ''Dist: '' @ distance),
                      ((0, 12), ''Shape: '' @ shape),
                      ((0, 24), ''Mat: '' @ material)]))"

subsection \<open>Import-time pin cleanup\<close>

text \<open>
  \<^verbatim>\<open>Device.pin_factory\<close> is None or a gpiozero pin factory: the pins it holds,
  what the \<open>k\<close>-th call of its \<^verbatim>\<open>close\<close> does, and the number of calls made. A
  close that returns releases the pins, one that raises leaves them. The attribute itself
  is never reset, so every cleanup with a factory present calls \<^verbatim>\<open>close\<close> again.
  Every exception is swallowed.
\<close>

record pin_factory =
  pins_held :: "int list"
  close_script :: "nat \<Rightarrow> exn + unit"
  close_calls :: nat

definition factory_close :: "pin_factory \<Rightarrow> (exn + unit) \<times> pin_factory" where
  "factory_close f =
     (case close_script f (close_calls f) of
        Inl e \<Rightarrow> (Inl e, f\<lparr>close_calls := Suc (close_calls f)\<rparr>)
      | Inr u \<Rightarrow> (Inr u, f\<lparr>pins_held := [], close_calls := Suc (close_calls f)\<rparr>))"

definition cleanup_gpio_pins :: "pin_factory option \<Rightarrow> pin_factory option" where
  "cleanup_gpio_pins factory =
     (case factory of
        None \<Rightarrow> None
      | Some f \<Rightarrow>
          (case factory_close f of
             (Inl e, f') \<Rightarrow> Some f'
           | (Inr _, f') \<Rightarrow> Some f'))"

section \<open>hw\_layer\_chatgpt.py\<close>

subsection \<open>The lgpio library and the module state\<close>

text \<open>
  The module keeps one global, \<^verbatim>\<open>gpio_handle\<close>. The lgpio library is outside the
  repository: \<open>script k\<close> is what the \<open>k\<close>-th lgpio call does, raise or return an
  integer (the new handle for \<^verbatim>\<open>gpiochip_open\<close>, the line level for
  \<^verbatim>\<open>gpio_read\<close>); \<open>tick\<close> counts the lgpio calls made and \<open>calls\<close> records them,
  together with every \<^verbatim>\<open>time.sleep\<close>, in order. \<open>claims\<close> holds the pins claimed by
  a claim call that returned, until their handle is closed. \<open>clock k\<close> is the value of
  the \<open>k\<close>-th \<^verbatim>\<open>time.time()\<close>.
\<close>

datatype direction = Output | Input

datatype call =
    Gpiochip_open int
  | Gpiochip_close int
  | Gpio_claim_output int int
  | Gpio_claim_input int int
  | Gpio_write int int int
  | Gpio_read int int
  | Sleep real

record state =
  gpio_handle :: "int option"
  script :: "nat \<Rightarrow> exn + int"
  tick :: nat
  calls :: "call list"
  claims :: "(int \<times> int \<times> direction) list"
  clock :: "nat \<Rightarrow> real"
  clock_reads :: nat

definition TRIG :: int where "TRIG = 23"
definition ECHO :: int where "ECHO = 24"
definition BUZZER :: int where "BUZZER = 18"
definition BUTTON :: int where "BUTTON = 17"

definition lgpio :: "call \<Rightarrow> state \<Rightarrow> (exn + int) \<times> state" where
  "lgpio c s = (script s (tick s), s\<lparr>tick := Suc (tick s), calls := calls s @ [c]\<rparr>)"

definition sleep :: "real \<Rightarrow> state \<Rightarrow> state" where
  "sleep d s = s\<lparr>calls := calls s @ [Sleep d]\<rparr>"

definition time_time :: "state \<Rightarrow> real \<times> state" where
  "time_time s = (clock s (clock_reads s), s\<lparr>clock_reads := Suc (clock_reads s)\<rparr>)"

definition gpiochip_open :: "int \<Rightarrow> state \<Rightarrow> (exn + int) \<times> state" where
  "gpiochip_open chip s = lgpio (Gpiochip_open chip) s"

definition gpiochip_close :: "int \<Rightarrow> state \<Rightarrow> (exn + int) \<times> state" where
  "gpiochip_close h s =
     (case lgpio (Gpiochip_close h) s of
        (Inl e, s') \<Rightarrow> (Inl e, s')
      | (Inr v, s') \<Rightarrow> (Inr v, s'\<lparr>claims := filter (\<lambda>(h', p, d). h' \<noteq> h) (claims s')\<rparr>))"

definition gpio_claim_output :: "int \<Rightarrow> int \<Rightarrow> state \<Rightarrow> (exn + int) \<times> state" where
  "gpio_claim_output h pin s =
     (case lgpio (Gpio_claim_output h pin) s of
        (Inl e, s') \<Rightarrow> (Inl e, s')
      | (Inr v, s') \<Rightarrow> (Inr v, s'\<lparr>claims := claims s' @ [(h, pin, Output)]\<rparr>))"

definition gpio_claim_input :: "int \<Rightarrow> int \<Rightarrow> state \<Rightarrow> (exn + int) \<times> state" where
  "gpio_claim_input h pin s =
     (case lgpio (Gpio_claim_input h pin) s of
        (Inl e, s') \<Rightarrow> (Inl e, s')
      | (Inr v, s') \<Rightarrow> (Inr v, s'\<lparr>claims := claims s' @ [(h, pin, Input)]\<rparr>))"

definition gpio_write :: "int \<Rightarrow> int \<Rightarrow> int \<Rightarrow> state \<Rightarrow> (exn + int) \<times> state" where
  "gpio_write h pin level s = lgpio (Gpio_write h pin level) s"

definition gpio_read :: "int \<Rightarrow> int \<Rightarrow> state \<Rightarrow> (exn + int) \<times> state" where
  "gpio_read h pin s = lgpio (Gpio_read h pin) s"

text \<open>Sequencing of calls that may raise: the first exception ends the block.\<close>

definition and_then ::
  "(state \<Rightarrow> (exn + 'a) \<times> state) \<Rightarrow> ('a \<Rightarrow> state \<Rightarrow> (exn + 'b) \<times> state) \<Rightarrow>
   state \<Rightarrow> (exn + 'b) \<times> state" where
  "and_then m f s = (case m s of (Inl e, s') \<Rightarrow> (Inl e, s') | (Inr x, s') \<Rightarrow> f x s')"

subsection \<open>Initialisation and cleanup\<close>

definition cleanup_gpio :: "state \<Rightarrow> state" where
  "cleanup_gpio s =
     (case gpio_handle s of
        None \<Rightarrow> s
      | Some h \<Rightarrow>
          (case gpiochip_close h s of
             (Inl e, s') \<Rightarrow> s'
           | (Inr _, s') \<Rightarrow> s'\<lparr>gpio_handle := None\<rparr>))"

text \<open>The body of the outer \<^verbatim>\<open>try\<close> of \<^verbatim>\<open>init_gpio\<close>.\<close>

definition init_gpio_attempt :: "state \<Rightarrow> (exn + int) \<times> state" where
  "init_gpio_attempt =
     and_then (\<lambda>s. case gpio_handle s of None \<Rightarrow> (Inr 0, s) | Some h \<Rightarrow> gpiochip_close h s)
       (\<lambda>_. and_then (gpiochip_open 0)
         (\<lambda>h. and_then (\<lambda>s. gpio_claim_output h TRIG (s\<lparr>gpio_handle := Some h\<rparr>))
           (\<lambda>_. and_then (gpio_claim_input h ECHO)
             (\<lambda>_. and_then (gpio_claim_output h BUZZER)
               (\<lambda>_. gpio_claim_input h BUTTON)))))"

definition init_gpio :: "state \<Rightarrow> state" where
  "init_gpio s =
     (case init_gpio_attempt s of
        (Inr _, s') \<Rightarrow> s'
      | (Inl e, s') \<Rightarrow>
          (case gpiochip_open 0 (sleep (1 / 2) (cleanup_gpio s')) of
             (Inr h, s'') \<Rightarrow> s''\<lparr>gpio_handle := Some h\<rparr>
           | (Inl e2, s'') \<Rightarrow> s''\<lparr>gpio_handle := None\<rparr>))"

subsection \<open>Single distance measurement\<close>

text \<open>
  \<open>trigger_pulse\<close> is the 10 microsecond pulse that opens the \<^verbatim>\<open>try\<close> block.
  The two echo loops have the same shape,
  \<^verbatim>\<open>while lgpio.gpio_read(gpio_handle, ECHO) == level: t = time.time()\<close>,
  with level 0 for the rise and 1 for the fall. A loop that never ends has no result:
  \<open>None\<close> of the outer option. The value returned by the function is Python's None or
  a float, the inner option.
\<close>

definition trigger_pulse :: "int \<Rightarrow> state \<Rightarrow> (exn + int) \<times> state" where
  "trigger_pulse h =
     and_then (gpio_write h TRIG 1) (\<lambda>_ s1. gpio_write h TRIG 0 (sleep (1 / 100000) s1))"

partial_function (option) wait_echo ::
  "int \<Rightarrow> int \<Rightarrow> real \<Rightarrow> state \<Rightarrow> ((exn + real) \<times> state) option" where
  "wait_echo h level t s =
     (case gpio_read h ECHO s of
        (Inl e, s') \<Rightarrow> Some (Inl e, s')
      | (Inr v, s') \<Rightarrow>
          if v = level then (case time_time s' of (t', s'') \<Rightarrow> wait_echo h level t' s'')
          else Some (Inr t, s'))"

definition measure_distance_chatgpt :: "state \<Rightarrow> (real option \<times> state) option" where
  "measure_distance_chatgpt s =
     (case gpio_handle s of
        None \<Rightarrow> Some (None, s)
      | Some h \<Rightarrow>
          (case trigger_pulse h s of
             (Inl e, s3) \<Rightarrow> Some (None, s3)
           | (Inr _, s3) \<Rightarrow>
               (case time_time s3 of (t0, s4) \<Rightarrow>
                  (case wait_echo h 0 t0 s4 of
                     None \<Rightarrow> None
                   | Some (Inl e, s5) \<Rightarrow> Some (None, s5)
                   | Some (Inr start_time, s5) \<Rightarrow>
                       (case time_time s5 of (t1, s6) \<Rightarrow>
                          (case wait_echo h 1 t1 s6 of
                             None \<Rightarrow> None
                           | Some (Inl e, s7) \<Rightarrow> Some (None, s7)
                           | Some (Inr stop_time, s7) \<Rightarrow>
                               (let time_elapsed = stop_time - start_time;
                                    distance = (time_elapsed * 34300) / 2
                                in if distance \<le> 2 \<or> distance \<ge> 400 then Some (None, s7)
                                   else Some (Some (round_py distance 2), s7))))))))"

subsection \<open>Button and buzzer\<close>

partial_function (option) poll_button ::
  "int \<Rightarrow> state \<Rightarrow> ((exn + unit) \<times> state) option" where
  "poll_button h s =
     (case gpio_read h BUTTON s of
        (Inl e, s') \<Rightarrow> Some (Inl e, s')
      | (Inr v, s') \<Rightarrow>
          if v = 1 then poll_button h (sleep (5 / 100) s') else Some (Inr (), s'))"

definition wait_for_button_press :: "state \<Rightarrow> (bool \<times> state) option" where
  "wait_for_button_press s =
     (case gpio_handle s of
        None \<Rightarrow> Some (False, s)
      | Some h \<Rightarrow>
          (case poll_button h s of
             None \<Rightarrow> None
           | Some (Inl e, s') \<Rightarrow> Some (False, s')
           | Some (Inr _, s') \<Rightarrow> Some (True, s')))"

text \<open>
  \<^verbatim>\<open>time.sleep\<close> raises ValueError for a negative duration; the duration of
  \<^verbatim>\<open>beep\<close> is the only one that is not a positive constant.
\<close>

definition time_sleep :: "real \<Rightarrow> state \<Rightarrow> (exn + int) \<times> state" where
  "time_sleep d s = (if d < 0 then (Inl ValueError, s) else (Inr 0, sleep d s))"

definition beep :: "real \<Rightarrow> state \<Rightarrow> state" where
  "beep duration s =
     (case gpio_handle s of
        None \<Rightarrow> s
      | Some h \<Rightarrow>
          snd (and_then (gpio_write h BUZZER 1)
                 (\<lambda>_. and_then (time_sleep duration)
                   (\<lambda>_. gpio_write h BUZZER 0)) s))"

subsection \<open>I2C sensors\<close>

text \<open>
  Both readers open the bus themselves and do not consult \<^verbatim>\<open>gpio_handle\<close>: the
  module state is no argument of theirs. The bus and the drivers are outside the
  repository. For the thermal reader, \<open>bus_script k\<close> is what the \<open>k\<close>-th bus call
  does, raise or return a value; \<open>bus_tick\<close> counts the calls made and \<open>bus_calls\<close>
  records them in order. For the colour reader each step of the \<^verbatim>\<open>try\<close> block is
  given by what it does. \<open>mlx90614_imported\<close> and \<open>tcs34725_imported\<close> say whether the
  optional import at the top of the module succeeded; calling the None left by a failed
  import raises TypeError. Every exception is caught.
\<close>

datatype bus_call = SMBus_open int | Get_ambient | Get_object_1

record smbus =
  bus_script :: "nat \<Rightarrow> exn + real"
  bus_tick :: nat
  bus_calls :: "bus_call list"
  mlx90614_imported :: bool

definition smbus_call :: "bus_call \<Rightarrow> smbus \<Rightarrow> (exn + real) \<times> smbus" where
  "smbus_call c bus =
     (bus_script bus (bus_tick bus),
      bus\<lparr>bus_tick := Suc (bus_tick bus), bus_calls := bus_calls bus @ [c]\<rparr>)"

definition read_temperature_attempt :: "smbus \<Rightarrow> (exn + real \<times> real) \<times> smbus" where
  "read_temperature_attempt bus =
     (case smbus_call (SMBus_open 1) bus of
        (Inl e, b1) \<Rightarrow> (Inl e, b1)
      | (Inr _, b1) \<Rightarrow>
          if \<not> mlx90614_imported b1 then (Inl TypeError, b1)
          else
            (case smbus_call Get_ambient b1 of
               (Inl e, b2) \<Rightarrow> (Inl e, b2)
             | (Inr a, b2) \<Rightarrow>
                 (case smbus_call Get_object_1 b2 of
                    (Inl e, b3) \<Rightarrow> (Inl e, b3)
                  | (Inr ob, b3) \<Rightarrow> (Inr (round_py a 2, round_py ob 2), b3))))"

definition read_temperature_chatgpt :: "smbus \<Rightarrow> (real option \<times> real option) \<times> smbus" where
  "read_temperature_chatgpt bus =
     (case read_temperature_attempt bus of
        (Inl e, b) \<Rightarrow> ((None, None), b)
      | (Inr (a, ob), b) \<Rightarrow> ((Some a, Some ob), b))"

record i2c_bus =
  i2c_open :: "exn + unit"
  tcs34725_imported :: bool
  color_raw :: "exn + int \<times> int \<times> int \<times> int"
  color_temperature :: "exn + real"
  lux :: "exn + real"

text \<open>The dictionary returned on success, one field for each of its keys.\<close>

record color_data =
  key_r :: int
  key_g :: int
  key_b :: int
  key_clear :: int
  key_color_temp :: real
  key_lux :: real

definition read_color_attempt :: "i2c_bus \<Rightarrow> exn + color_data" where
  "read_color_attempt bus =
     (case i2c_open bus of
        Inl e \<Rightarrow> Inl e
      | Inr _ \<Rightarrow>
          if \<not> tcs34725_imported bus then Inl TypeError
          else
            (case color_raw bus of
               Inl e \<Rightarrow> Inl e
             | Inr (red, green, blue, c) \<Rightarrow>
                 (case color_temperature bus of
                    Inl e \<Rightarrow> Inl e
                  | Inr ct \<Rightarrow>
                      (case lux bus of
                         Inl e \<Rightarrow> Inl e
                       | Inr l \<Rightarrow>
                           Inr \<lparr>key_r = red, key_g = green, key_b = blue, key_clear = c,
                                key_color_temp = ct, key_lux = l\<rparr>))))"

definition read_color_chatgpt :: "i2c_bus \<Rightarrow> color_data option" where
  "read_color_chatgpt bus =
     (case read_color_attempt bus of Inl e \<Rightarrow> None | Inr d \<Rightarrow> Some d)"

subsection \<open>OLED display\<close>

text \<open>
  \<^verbatim>\<open>disp\<close> is None or an SSD1306 display, given by what the drawing block does.
  The result is the text drawn at its pixel positions; nothing is drawn when the block
  raises. At most the first four lines are used, 15 pixels apart.
\<close>

definition oled_display_message ::
  "(exn + unit) option \<Rightarrow> string list \<Rightarrow> ((int \<times> int) \<times> string) list" where
  "oled_display_message disp lines =
     (case disp of
        None \<Rightarrow> []
      | Some backend \<Rightarrow>
          (case backend of
             Inl e \<Rightarrow> []
           | Inr _ \<Rightarrow>
               map (\<lambda>(i, text). ((0, int i * 15), text))
                 (zip [0..<length (take 4 lines)] (take 4 lines))))"

section \<open>What the echo loops observe\<close>

text \<open>
  \<open>echo_seen level s y\<close>: a loop started in \<open>s\<close> that ended with \<open>y\<close> read the
  level at every lgpio call from \<open>tick s\<close> up to some call \<open>k\<close>, where the read
  raised or returned another value; it made no further call.
  \<open>echo_answers s\<close>: counted from the start of a measurement in \<open>s\<close> (two writes
  come first), the echo line is read as 0 up to a call \<open>k\<close> that raises or returns
  another value, and in the latter case some later call raises or returns a value other
  than 1.
\<close>

definition echo_seen :: "int \<Rightarrow> state \<Rightarrow> (exn + real) \<times> state \<Rightarrow> bool" where
  "echo_seen level s y \<longleftrightarrow>
     (\<exists>k \<ge> tick s. script s k \<noteq> Inr level \<and>
        (\<forall>i. tick s \<le> i \<and> i < k \<longrightarrow> script s i = Inr level) \<and>
        tick (snd y) = Suc k \<and> script (snd y) = script s \<and>
        (isl (fst y) \<longleftrightarrow> isl (script s k)))"

definition echo_answers :: "state \<Rightarrow> bool" where
  "echo_answers s \<longleftrightarrow>
     (\<exists>k \<ge> tick s + 2. script s k \<noteq> Inr 0 \<and>
        (\<forall>i. tick s + 2 \<le> i \<and> i < k \<longrightarrow> script s i = Inr 0) \<and>
        (isl (script s k) \<or> (\<exists>j > k. script s j \<noteq> Inr 1)))"

section \<open>Concrete inputs\<close>

text \<open>
  A distance sensor that yields the same value at every read, and one that yields
  5 m first and then 0.10 m, 0.11 m, 0.12 m, ...
\<close>

definition steady_sensor :: "real \<Rightarrow> nat \<Rightarrow> real" where
  "steady_sensor d i = d"

definition ramp_sensor :: "nat \<Rightarrow> real" where
  "ramp_sensor i = (if i = 0 then 5 else (9 + of_nat i) / 100)"

text \<open>
  Thermal sensors: one at room temperature, one at the freezing point, one whose frame
  read fails on the bus, one whose ambient read fails. An SMBus that cannot be opened,
  one that works (ambient 21.5, object 36.6), one without the driver, and one whose
  last read fails. A colour bus that works and one whose lux read fails. A pin factory
  holding two pins whose first close raises.
\<close>

definition room_sensor :: mlx90640 where
  "room_sensor = \<lparr>frames = (\<lambda>k. Inr (replicate 768 25)), frame_calls = 0,
                   temperature_ambient = Inr 25\<rparr>"

definition freezing_sensor :: mlx90640 where
  "freezing_sensor = \<lparr>frames = (\<lambda>k. Inr (replicate 768 0)), frame_calls = 0,
                       temperature_ambient = Inr 0\<rparr>"

definition bus_error_sensor :: mlx90640 where
  "bus_error_sensor = \<lparr>frames = (\<lambda>k. Inl OSError), frame_calls = 0,
                        temperature_ambient = Inr 25\<rparr>"

definition ambient_error_sensor :: mlx90640 where
  "ambient_error_sensor = \<lparr>frames = (\<lambda>k. Inr (replicate 768 25)), frame_calls = 0,
                            temperature_ambient = Inl OSError\<rparr>"

definition dead_bus :: smbus where
  "dead_bus = \<lparr>bus_script = (\<lambda>k. Inl OSError), bus_tick = 0, bus_calls = [],
                mlx90614_imported = True\<rparr>"

definition working_bus :: smbus where
  "working_bus =
     \<lparr>bus_script = (\<lambda>k. if k = 1 then Inr (215 / 10) else Inr (366 / 10)), bus_tick = 0,
      bus_calls = [], mlx90614_imported = True\<rparr>"

definition driverless_bus :: smbus where
  "driverless_bus = working_bus\<lparr>mlx90614_imported := False\<rparr>"

definition flaky_bus :: smbus where
  "flaky_bus = working_bus\<lparr>bus_script := (\<lambda>k. if k = 2 then Inl OSError else Inr 20)\<rparr>"

definition working_color_bus :: i2c_bus where
  "working_color_bus =
     \<lparr>i2c_open = Inr (), tcs34725_imported = True, color_raw = Inr (10, 20, 30, 60),
      color_temperature = Inr 5000, lux = Inr 120\<rparr>"

definition dark_color_bus :: i2c_bus where
  "dark_color_bus = working_color_bus\<lparr>lux := Inl OSError\<rparr>"

definition sticky_factory :: pin_factory where
  "sticky_factory =
     \<lparr>pins_held = [17, 18], close_script = (\<lambda>k. if k = 0 then Inl OSError else Inr ()),
      close_calls = 0\<rparr>"

text \<open>
  Module states. \<open>idle\<close>: no handle, every lgpio call returns 7. \<open>busy_then_free\<close>:
  the first lgpio call raises, the later ones return 7. \<open>always_busy\<close>: every call
  raises. \<open>opened\<close>: handle 7 recorded with a claimed pin, every call returns 0.
  \<open>close_fails_once\<close>: as \<open>opened\<close>, but the first call raises.
  \<open>echo_stuck_low\<close>: handle 7, every call returns 0, so the echo line never rises.
  \<open>echo_pulse\<close>: handle 7, the echo line reads 0, 1, 1, 0 after the two trigger
  writes. The clock advances one millisecond per reading.
\<close>

definition idle :: state where
  "idle = \<lparr>gpio_handle = None, script = (\<lambda>k. Inr 7), tick = 0, calls = [], claims = [],
            clock = (\<lambda>k. of_nat k / 1000), clock_reads = 0\<rparr>"

definition busy_then_free :: state where
  "busy_then_free = idle\<lparr>script := (\<lambda>k. if k = 0 then Inl LgpioError else Inr 7)\<rparr>"

definition always_busy :: state where
  "always_busy = idle\<lparr>script := (\<lambda>k. Inl LgpioError)\<rparr>"

definition opened :: state where
  "opened = idle\<lparr>gpio_handle := Some 7, script := (\<lambda>k. Inr 0), claims := [(7, 23, Output)]\<rparr>"

definition close_fails_once :: state where
  "close_fails_once = opened\<lparr>script := (\<lambda>k. if k = 0 then Inl LgpioError else Inr 0)\<rparr>"

definition echo_stuck_low :: state where
  "echo_stuck_low = idle\<lparr>gpio_handle := Some 7, script := (\<lambda>k. Inr 0)\<rparr>"

definition echo_pulse :: state where
  "echo_pulse =
     idle\<lparr>gpio_handle := Some 7, script := (\<lambda>k. if k = 3 \<or> k = 4 then Inr 1 else Inr 0)\<rparr>"

section \<open>Properties of hw\_layer.py\<close>

subsection \<open>Absorption thresholds\<close>

text \<open>
  Claim C5. \<open>analyze_absorption\<close> is defined on every real: it answers High exactly
  above 1.2, Medium exactly on the half-open interval from 0.5 (excluded) to 1.2
  (included), and Low exactly at or below 0.5. The boundary values fall into the lower
  class: 1.2 is Medium, 0.5 is Low, and 1.3 is High.
\<close>

theorem analyze_absorption_thresholds:
  "(analyze_absorption sigma = ''High'' \<longleftrightarrow> sigma > 12 / 10) \<and>
   (analyze_absorption sigma = ''Medium'' \<longleftrightarrow> 5 / 10 < sigma \<and> sigma \<le> 12 / 10) \<and>
   (analyze_absorption sigma = ''Low'' \<longleftrightarrow> sigma \<le> 5 / 10) \<and>
   analyze_absorption (12 / 10) = ''Medium'' \<and>
   analyze_absorption (5 / 10) = ''Low'' \<and>
   analyze_absorption (13 / 10) = ''High''"
  by (simp add: analyze_absorption_def)

theorem analyze_absorption_thresholds_witness:
  "analyze_absorption (7 / 10) = ''Medium'' \<and> analyze_absorption 0 = ''Low'' \<and>
   analyze_absorption 2 = ''High''"
  using analyze_absorption_thresholds [of "7 / 10"] analyze_absorption_thresholds [of 0]
    analyze_absorption_thresholds [of 2]
  by simp

subsection \<open>Colour priority\<close>

text \<open>
  Claim C6. \<open>get_color_name\<close> applies its rules in a fixed order and the first match
  wins: White when all channels exceed 200; otherwise Black when all are below 30;
  otherwise Red, Green or Blue when that channel is strictly greater than both others;
  Yellow only when no channel is strictly dominant, which leaves exactly the triples
  with red equal to green, both above 100, and blue below 50; Unknown in every other
  case, that is exactly when none of the six tests holds. The result is always one of
  these seven labels. So (255,255,255) is White, (10,10,10) is Black, (250,10,10) is Red, and
  (120,130,20) is Green, not Yellow, although it satisfies the Yellow test.
\<close>

theorem get_color_name_priority:
  "(get_color_name (r, g, b) = ''White'' \<longleftrightarrow> r > 200 \<and> g > 200 \<and> b > 200) \<and>
   (get_color_name (r, g, b) = ''Black'' \<longleftrightarrow> r < 30 \<and> g < 30 \<and> b < 30) \<and>
   (get_color_name (r, g, b) = ''Red'' \<longleftrightarrow>
      \<not> (r < 30 \<and> g < 30 \<and> b < 30) \<and> r > g \<and> r > b \<and> \<not> (r > 200 \<and> g > 200 \<and> b > 200)) \<and>
   (get_color_name (r, g, b) = ''Green'' \<longleftrightarrow>
      \<not> (r < 30 \<and> g < 30 \<and> b < 30) \<and> g > r \<and> g > b \<and> \<not> (r > 200 \<and> g > 200 \<and> b > 200)) \<and>
   (get_color_name (r, g, b) = ''Blue'' \<longleftrightarrow>
      \<not> (r < 30 \<and> g < 30 \<and> b < 30) \<and> b > r \<and> b > g \<and> \<not> (r > 200 \<and> g > 200 \<and> b > 200)) \<and>
   (get_color_name (r, g, b) = ''Yellow'' \<longleftrightarrow> r = g \<and> r > 100 \<and> b < 50) \<and>
   (get_color_name (r, g, b) = ''Unknown'' \<longleftrightarrow>
      \<not> (r > 200 \<and> g > 200 \<and> b > 200) \<and> \<not> (r < 30 \<and> g < 30 \<and> b < 30) \<and>
      \<not> (r > g \<and> r > b) \<and> \<not> (g > r \<and> g > b) \<and> \<not> (b > r \<and> b > g) \<and>
      \<not> (r > 100 \<and> g > 100 \<and> b < 50)) \<and>
   get_color_name (r, g, b) \<in>
     {''White'', ''Black'', ''Red'', ''Green'', ''Blue'', ''Yellow'', ''Unknown''} \<and>
   (r > 100 \<and> g > 100 \<and> b < 50 \<and> r \<noteq> g \<longrightarrow>
      get_color_name (r, g, b) = (if r > g then ''Red'' else ''Green'')) \<and>
   get_color_name (255, 255, 255) = ''White'' \<and>
   get_color_name (10, 10, 10) = ''Black'' \<and>
   get_color_name (250, 10, 10) = ''Red'' \<and>
   get_color_name (120, 130, 20) = ''Green''"
  by (simp; linarith)

theorem get_color_name_priority_witness:
  "get_color_name (150, 150, 20) = ''Yellow'' \<and> get_color_name (150, 120, 20) = ''Red'' \<and>
   get_color_name (120, 130, 20) \<noteq> ''Yellow'' \<and> get_color_name (200, 200, 200) = ''Unknown'' \<and>
   get_color_name (40, 40, 40) = ''Unknown''"
  using get_color_name_priority [of 150 150 20] get_color_name_priority [of 150 120 20]
    get_color_name_priority [of 120 130 20] get_color_name_priority [of 200 200 200]
    get_color_name_priority [of 40 40 40]
  by simp

subsection \<open>Rounding and the mean\<close>

lemma round_half_even_ge: "of_int k \<le> x \<Longrightarrow> k \<le> round_half_even x"
proof -
  assume "of_int k \<le> x"
  then have "k \<le> \<lfloor>x\<rfloor>" by (simp add: le_floor_iff)
  moreover have "\<lfloor>x\<rfloor> \<le> round_half_even x" by (simp add: round_half_even_def Let_def)
  ultimately show ?thesis by linarith
qed

lemma round_half_even_of_int [simp]: "round_half_even (of_int k) = k"
  by (simp add: round_half_even_def)

lemma round_half_even_numeral [simp]: "round_half_even (numeral n) = numeral n"
  using round_half_even_of_int [of "numeral n"] by simp

lemma round_py_ge_2: "2 \<le> x \<Longrightarrow> 2 \<le> round_py x 2"
proof -
  assume "2 \<le> x"
  then have "of_int 200 \<le> x * 10 ^ 2" by simp
  then have "200 \<le> round_half_even (x * 10 ^ 2)" by (rule round_half_even_ge)
  then have "(200::real) \<le> of_int (round_half_even (x * 10 ^ 2))" by linarith
  then show ?thesis by (simp add: round_py_def)
qed

lemma round_py_0 [simp]: "round_py 0 n = 0"
  by (simp add: round_py_def round_half_even_def)

lemma sum_list_gt:
  "xs \<noteq> [] \<Longrightarrow> \<forall>x\<in>set xs. c < x \<Longrightarrow> c * of_nat (length xs) < sum_list (xs::real list)"
proof (induction xs)
  case Nil
  then show ?case by simp
next
  case (Cons a xs)
  show ?case
  proof (cases "xs = []")
    case True
    with Cons.prems show ?thesis by simp
  next
    case False
    with Cons have "c * of_nat (length xs) < sum_list xs" by simp
    moreover from Cons.prems have "c < a" by simp
    ultimately show ?thesis by (simp add: algebra_simps)
  qed
qed

lemma mean_in_envelope:
  assumes "xs \<noteq> []" "\<forall>x\<in>set xs. in_envelope x"
  shows "2 < sum_list xs / of_nat (length xs)"
proof -
  have "2 * of_nat (length xs) < sum_list xs"
    using assms by (intro sum_list_gt) (auto simp: in_envelope_def)
  moreover have "0 < (of_nat (length xs) :: real)" using assms by simp
  ultimately show ?thesis by (simp add: pos_less_divide_eq)
qed

subsection \<open>Filtered distance\<close>

lemma measure_distance_Some:
  "measure_distance (Some sensor) samples =
     (let v = valid_readings_of sensor samples in
      if v = [] then Inr (0, 0)
      else if length v = 1 then Inr (round_py (hd v) 2, 0)
      else Inr (round_py (sum_list v / of_nat (length v)) 2,
                round_py (sqrt (sum_list (map (\<lambda>x. (x - sum_list v / of_nat (length v))\<^sup>2) v)
                                  / of_nat (length v - 1))) 2))"
proof -
  have one: "length v = Suc 0 \<Longrightarrow> sum_list v = hd v" for v :: "real list"
    by (cases v) auto
  have two: "v \<noteq> [] \<Longrightarrow> length v \<noteq> 1 \<Longrightarrow> 1 < length v \<and> \<not> length v < 2" for v :: "real list"
    by (cases v) auto
  show ?thesis
    by (auto simp: measure_distance_def Let_def mean_def stdev_def one dest: two)
qed

lemma valid_readings_of_unfold:
  "valid_readings_of sensor samples =
     filter (\<lambda>x. 2 < x \<and> x < 400) (map (\<lambda>i. sensor i * 100) [0..<nat samples])"
  by (simp add: valid_readings_of_def readings_of_def in_envelope_def cong: filter_cong)

lemma measure_distance_survivors_avg:
  assumes "valid_readings_of sensor samples \<noteq> []"
  shows "\<exists>avg sd. measure_distance (Some sensor) samples = Inr (avg, sd) \<and> 2 \<le> avg"
proof -
  let ?v = "valid_readings_of sensor samples"
  have "\<forall>x\<in>set ?v. in_envelope x" by (simp add: valid_readings_of_def)
  with assms have m: "2 < sum_list ?v / of_nat (length ?v)" by (rule mean_in_envelope)
  have one: "length ?v = 1 \<Longrightarrow> sum_list ?v / of_nat (length ?v) = hd ?v"
    by (cases ?v) auto
  from m have "2 \<le> round_py (sum_list ?v / of_nat (length ?v)) 2"
    by (intro round_py_ge_2) simp
  with assms one show ?thesis
    by (auto simp: measure_distance_Some Let_def)
qed

text \<open>
  Claim C1, as the code has it. For every sample count and every sensor, the readings
  outside the open interval (2, 400) cm are dropped before anything is computed. With
  no survivor the result is the pair (0, 0). With exactly one survivor the result is that
  reading rounded to two decimals, paired with the deviation 0 (the sample standard
  deviation is not defined there and is not computed). With two or more survivors the
  result is their mean and their sample standard deviation, each rounded to two
  decimals. No exception is raised, and a result with survivors has an average of at
  least 2, so it is never the pair (0, 0).
\<close>

theorem measure_distance_filtered:
  "let v = filter (\<lambda>x. 2 < x \<and> x < 400) (map (\<lambda>i. sensor i * 100) [0..<nat samples]) in
     (v = [] \<longrightarrow> measure_distance (Some sensor) samples = Inr (0, 0)) \<and>
     (length v = 1 \<longrightarrow>
        measure_distance (Some sensor) samples = Inr (round_py (hd v) 2, 0)) \<and>
     (2 \<le> length v \<longrightarrow>
        (\<exists>m sd. mean v = Inr m \<and> stdev v = Inr sd \<and>
           measure_distance (Some sensor) samples = Inr (round_py m 2, round_py sd 2))) \<and>
     (v \<noteq> [] \<longrightarrow>
        (\<exists>avg sd. measure_distance (Some sensor) samples = Inr (avg, sd) \<and> 2 \<le> avg))"
proof -
  let ?v = "valid_readings_of sensor samples"
  have a: "?v = [] \<longrightarrow> measure_distance (Some sensor) samples = Inr (0, 0)"
    by (simp add: measure_distance_Some)
  have b: "length ?v = 1 \<longrightarrow>
      measure_distance (Some sensor) samples = Inr (round_py (hd ?v) 2, 0)"
    by (auto simp: measure_distance_Some Let_def)
  have c: "2 \<le> length ?v \<longrightarrow>
      (\<exists>m sd. mean ?v = Inr m \<and> stdev ?v = Inr sd \<and>
         measure_distance (Some sensor) samples = Inr (round_py m 2, round_py sd 2))"
    by (auto simp: measure_distance_Some Let_def mean_def stdev_def)
  have d: "?v \<noteq> [] \<longrightarrow>
      (\<exists>avg sd. measure_distance (Some sensor) samples = Inr (avg, sd) \<and> 2 \<le> avg)"
    using measure_distance_survivors_avg by blast
  from a b c d show ?thesis
    unfolding Let_def valid_readings_of_unfold by blast
qed

theorem measure_distance_filtered_witness:
  "measure_distance (Some (steady_sensor 5)) 3 = Inr (0, 0) \<and>
   measure_distance (Some (steady_sensor (1 / 2))) 1 = Inr (50, 0) \<and>
   (\<exists>m sd. mean [10, 11, 12] = Inr m \<and> stdev [10, 11, 12] = Inr sd \<and>
      measure_distance (Some ramp_sensor) 4 = Inr (round_py m 2, round_py sd 2))"
  using measure_distance_filtered [of "steady_sensor 5" 3]
    measure_distance_filtered [of "steady_sensor (1 / 2)" 1]
    measure_distance_filtered [of ramp_sensor 4]
  by (simp add: steady_sensor_def ramp_sensor_def upt_rec round_py_def Let_def)

text \<open>
  Claim C1 as the specification words it fails at a single surviving reading: one read
  of a sensor at 0.5 m leaves the one reading 50 cm, whose sample standard deviation
  \<^verbatim>\<open>statistics.stdev\<close> refuses to compute, and the function returns the deviation 0.
\<close>

theorem measure_distance_single_survivor_counterexample:
  "valid_readings_of (steady_sensor (1 / 2)) 1 = [50] \<and>
   stdev [50] = Inl StatisticsError \<and>
   measure_distance (Some (steady_sensor (1 / 2))) 1 = Inr (50, 0)"
  by (simp add: measure_distance_Some valid_readings_of_unfold steady_sensor_def stdev_def
      round_py_def)

text \<open>
  Claim C10. \<open>measure_distance\<close> returns the same pair (0, 0) when the sensor object is
  absent, when the sample count is zero or negative, and when every collected reading lies
  outside the envelope (2, 400) cm: the returned pair does not tell these apart.
\<close>

theorem measure_distance_zero_pair:
  "measure_distance None samples = Inr (0, 0) \<and>
   (samples \<le> 0 \<longrightarrow> measure_distance (Some sensor) samples = Inr (0, 0)) \<and>
   ((\<forall>i < nat samples. sensor i * 100 \<le> 2 \<or> 400 \<le> sensor i * 100) \<longrightarrow>
      measure_distance (Some sensor) samples = Inr (0, 0))"
proof -
  have "measure_distance None samples = Inr (0, 0)"
    by (simp add: measure_distance_def)
  moreover have "samples \<le> 0 \<longrightarrow> measure_distance (Some sensor) samples = Inr (0, 0)"
    by (simp add: measure_distance_Some valid_readings_of_unfold)
  moreover have "(\<forall>i < nat samples. sensor i * 100 \<le> 2 \<or> 400 \<le> sensor i * 100) \<longrightarrow>
      measure_distance (Some sensor) samples = Inr (0, 0)"
  proof
    assume out: "\<forall>i < nat samples. sensor i * 100 \<le> 2 \<or> 400 \<le> sensor i * 100"
    have "valid_readings_of sensor samples = []"
      unfolding valid_readings_of_unfold filter_empty_conv using out by fastforce
    then show "measure_distance (Some sensor) samples = Inr (0, 0)"
      by (simp add: measure_distance_Some)
  qed
  ultimately show ?thesis by blast
qed

theorem measure_distance_zero_pair_witness:
  "measure_distance None 10 = Inr (0, 0) \<and>
   measure_distance (Some (steady_sensor (1 / 2))) 0 = Inr (0, 0) \<and>
   measure_distance (Some (steady_sensor 5)) 10 = Inr (0, 0) \<and>
   measure_distance (Some (steady_sensor (1 / 2))) 0 = measure_distance None 0"
  using measure_distance_zero_pair [of 10 "steady_sensor 5"]
    measure_distance_zero_pair [of 0 "steady_sensor (1 / 2)"]
  by (simp add: steady_sensor_def)

section \<open>Properties of hw\_layer\_chatgpt.py\<close>

lemmas lgpio_defs = gpiochip_open_def gpiochip_close_def gpio_claim_output_def
  gpio_claim_input_def gpio_write_def gpio_read_def lgpio_def sleep_def and_then_def
  TRIG_def ECHO_def BUZZER_def BUTTON_def

subsection \<open>The echo loops\<close>

lemma wait_echo_Some:
  assumes "wait_echo h level t s = Some y"
  shows "echo_seen level s y"
proof (rule wait_echo.raw_induct [where P = "\<lambda>h level t s y. echo_seen level s y", OF _ assms],
    goal_cases)
  case (1 f h level t s y)
  obtain r s' where l: "gpio_read h ECHO s = (r, s')" by (cases "gpio_read h ECHO s")
  then have s': "r = script s (tick s)" "tick s' = Suc (tick s)" "script s' = script s"
    by (auto simp: gpio_read_def lgpio_def)
  show ?case
  proof (cases r)
    case (Inl e)
    with 1(2) l have "y = (Inl e, s')" by simp
    with Inl s' show ?thesis
      unfolding echo_seen_def by (intro exI[of _ "tick s"]) auto
  next
    case (Inr v)
    show ?thesis
    proof (cases "v = level")
      case False
      with 1(2) l Inr have "y = (Inr t, s')" by simp
      with Inr False s' show ?thesis
        unfolding echo_seen_def by (intro exI[of _ "tick s"]) auto
    next
      case True
      obtain t' s'' where tt: "time_time s' = (t', s'')" by (cases "time_time s'")
      then have s'': "tick s'' = tick s'" "script s'' = script s'"
        by (auto simp: time_time_def)
      from 1(2) l Inr True tt have "f h level t' s'' = Some y" by simp
      then have "echo_seen level s'' y" by (rule 1(1))
      then obtain k where k: "k \<ge> tick s''" "script s'' k \<noteq> Inr level"
        "\<forall>i. tick s'' \<le> i \<and> i < k \<longrightarrow> script s'' i = Inr level"
        "tick (snd y) = Suc k" "script (snd y) = script s''" "isl (fst y) \<longleftrightarrow> isl (script s'' k)"
        unfolding echo_seen_def by blast
      have "\<forall>i. tick s \<le> i \<and> i < k \<longrightarrow> script s i = Inr level"
      proof (intro allI impI)
        fix i assume i: "tick s \<le> i \<and> i < k"
        show "script s i = Inr level"
        proof (cases "i = tick s")
          case True
          with Inr \<open>v = level\<close> s' show ?thesis by simp
        next
          case False
          with i k(3) s' s'' show ?thesis by simp
        qed
      qed
      with k s' s'' show ?thesis
        unfolding echo_seen_def by (intro exI[of _ k]) auto
    qed
  qed
qed

lemma wait_echo_returns:
  "script s (tick s + n) \<noteq> Inr level \<Longrightarrow> \<forall>i < n. script s (tick s + i) = Inr level \<Longrightarrow>
   \<exists>y. wait_echo h level t s = Some y"
proof (induction n arbitrary: t s)
  case 0
  then show ?case
    by (subst wait_echo.simps) (auto simp: gpio_read_def lgpio_def split: sum.splits)
next
  case (Suc n)
  obtain r s' where l: "gpio_read h ECHO s = (r, s')" by (cases "gpio_read h ECHO s")
  then have s': "r = script s (tick s)" "tick s' = Suc (tick s)" "script s' = script s"
    by (auto simp: gpio_read_def lgpio_def)
  from Suc.prems(2) have r: "r = Inr level" using s' by (metis add.right_neutral zero_less_Suc)
  obtain t' s'' where tt: "time_time s' = (t', s'')" by (cases "time_time s'")
  then have s'': "tick s'' = tick s'" "script s'' = script s'"
    by (auto simp: time_time_def)
  have "script s'' (tick s'' + n) \<noteq> Inr level" using Suc.prems(1) s' s'' by simp
  moreover have "\<forall>i < n. script s'' (tick s'' + i) = Inr level"
    using Suc.prems(2) s' s'' by (metis Suc_less_eq add_Suc_shift)
  ultimately obtain y where "wait_echo h level t' s'' = Some y"
    using Suc.IH by blast
  then show ?case
    by (subst wait_echo.simps) (simp add: l r tt)
qed

lemma wait_echo_returns_if:
  assumes "tick s \<le> k" "script s k \<noteq> Inr level"
  shows "\<exists>y. wait_echo h level t s = Some y"
proof -
  define n where "n = (LEAST n. script s (tick s + n) \<noteq> Inr level)"
  have ex: "script s (tick s + (k - tick s)) \<noteq> Inr level" using assms by simp
  then have "script s (tick s + n) \<noteq> Inr level"
    unfolding n_def by (rule LeastI)
  moreover have "\<forall>i < n. script s (tick s + i) = Inr level"
    unfolding n_def using not_less_Least by blast
  ultimately show ?thesis by (rule wait_echo_returns)
qed

lemma trigger_pulse_result:
  "isl (fst (trigger_pulse h s)) \<longleftrightarrow> isl (script s (tick s)) \<or> isl (script s (tick s + 1))"
  "script (snd (trigger_pulse h s)) = script s"
  "\<not> isl (fst (trigger_pulse h s)) \<Longrightarrow> tick (snd (trigger_pulse h s)) = tick s + 2"
  by (auto simp: trigger_pulse_def and_then_def gpio_write_def lgpio_def sleep_def split: sum.splits)

lemma measure_distance_chatgpt_returns_iff:
  assumes h: "gpio_handle s = Some h"
  shows "(\<exists>res. measure_distance_chatgpt s = Some res) \<longleftrightarrow>
     isl (script s (tick s)) \<or> isl (script s (tick s + 1)) \<or> echo_answers s"
proof (cases "isl (fst (trigger_pulse h s))")
  case True
  then obtain e s3 where "trigger_pulse h s = (Inl e, s3)"
    by (cases "trigger_pulse h s") (auto simp: isl_def)
  then have "\<exists>res. measure_distance_chatgpt s = Some res"
    by (simp add: measure_distance_chatgpt_def h)
  with True show ?thesis by (auto simp: trigger_pulse_result)
next
  case False
  then obtain v s3 where tp: "trigger_pulse h s = (Inr v, s3)"
    by (cases "trigger_pulse h s"; cases "fst (trigger_pulse h s)") auto
  with False have s3: "script s3 = script s" "tick s3 = tick s + 2"
    using trigger_pulse_result(2,3) [of h s] by auto
  obtain t0 s4 where tt: "time_time s3 = (t0, s4)" by (cases "time_time s3")
  with s3 have s4: "script s4 = script s" "tick s4 = tick s + 2"
    by (auto simp: time_time_def)
  from False have noexn: "\<not> isl (script s (tick s))" "\<not> isl (script s (tick s + 1))"
    by (simp_all add: trigger_pulse_result)
  have md: "measure_distance_chatgpt s =
      (case wait_echo h 0 t0 s4 of
         None \<Rightarrow> None
       | Some (Inl e, s5) \<Rightarrow> Some (None, s5)
       | Some (Inr start_time, s5) \<Rightarrow>
           (case time_time s5 of (t1, s6) \<Rightarrow>
              (case wait_echo h 1 t1 s6 of
                 None \<Rightarrow> None
               | Some (Inl e, s7) \<Rightarrow> Some (None, s7)
               | Some (Inr stop_time, s7) \<Rightarrow>
                   (let time_elapsed = stop_time - start_time;
                        distance = (time_elapsed * 34300) / 2
                    in if distance \<le> 2 \<or> distance \<ge> 400 then Some (None, s7)
                       else Some (Some (round_py distance 2), s7)))))"
    by (simp add: measure_distance_chatgpt_def h tp tt)
  have "(\<exists>res. measure_distance_chatgpt s = Some res) \<longleftrightarrow> echo_answers s"
  proof
    assume "\<exists>res. measure_distance_chatgpt s = Some res"
    then obtain res where res: "measure_distance_chatgpt s = Some res" ..
    with md obtain r s5 where w1: "wait_echo h 0 t0 s4 = Some (r, s5)"
      by (cases "wait_echo h 0 t0 s4") auto
    then have "echo_seen 0 s4 (r, s5)" by (rule wait_echo_Some)
    then obtain k where k: "k \<ge> tick s + 2" "script s k \<noteq> Inr 0"
      "\<forall>i. tick s + 2 \<le> i \<and> i < k \<longrightarrow> script s i = Inr 0"
      "tick s5 = Suc k" "script s5 = script s" "isl r \<longleftrightarrow> isl (script s k)"
      unfolding echo_seen_def using s4 by auto
    show "echo_answers s"
    proof (cases r)
      case (Inl e)
      with k show ?thesis unfolding echo_answers_def by auto
    next
      case (Inr start_time)
      obtain t1 s6 where tt2: "time_time s5 = (t1, s6)" by (cases "time_time s5")
      with k have s6: "script s6 = script s" "tick s6 = Suc k"
        by (auto simp: time_time_def)
      from res md w1 Inr tt2 obtain y where "wait_echo h 1 t1 s6 = Some y"
        by (cases "wait_echo h 1 t1 s6") auto
      then have "echo_seen 1 s6 y" by (rule wait_echo_Some)
      then obtain j where "j \<ge> Suc k" "script s j \<noteq> Inr 1"
        unfolding echo_seen_def using s6 by auto
      with k show ?thesis unfolding echo_answers_def
        by (intro exI[of _ k]) (auto intro!: exI[of _ j])
    qed
  next
    assume "echo_answers s"
    then obtain k where k: "k \<ge> tick s + 2" "script s k \<noteq> Inr 0"
      "\<forall>i. tick s + 2 \<le> i \<and> i < k \<longrightarrow> script s i = Inr 0"
      "isl (script s k) \<or> (\<exists>j > k. script s j \<noteq> Inr 1)"
      unfolding echo_answers_def by blast
    have "\<exists>y. wait_echo h 0 t0 s4 = Some y"
      using k(1,2) s4 by (intro wait_echo_returns_if [of _ k]) auto
    then obtain r s5 where w1: "wait_echo h 0 t0 s4 = Some (r, s5)" by auto
    then have "echo_seen 0 s4 (r, s5)" by (rule wait_echo_Some)
    then obtain k' where k': "k' \<ge> tick s + 2" "script s k' \<noteq> Inr 0"
      "\<forall>i. tick s + 2 \<le> i \<and> i < k' \<longrightarrow> script s i = Inr 0"
      "tick s5 = Suc k'" "script s5 = script s" "isl r \<longleftrightarrow> isl (script s k')"
      unfolding echo_seen_def using s4 by auto
    have "k' = k"
    proof (rule ccontr)
      assume "k' \<noteq> k"
      then consider "k' < k" | "k < k'" by linarith
      then show False
      proof cases
        case 1
        with k(3) k'(1,2) show False by auto
      next
        case 2
        with k'(3) k(1,2) show False by auto
      qed
    qed
    show "\<exists>res. measure_distance_chatgpt s = Some res"
    proof (cases r)
      case (Inl e)
      with md w1 show ?thesis by simp
    next
      case (Inr start_time)
      with k' \<open>k' = k\<close> k(4) obtain j where j: "j > k" "script s j \<noteq> Inr 1"
        by auto
      obtain t1 s6 where tt2: "time_time s5 = (t1, s6)" by (cases "time_time s5")
      with k' \<open>k' = k\<close> have s6: "script s6 = script s" "tick s6 = Suc k"
        by (auto simp: time_time_def)
      have "\<exists>y. wait_echo h 1 t1 s6 = Some y"
        using j s6 by (intro wait_echo_returns_if [of _ j]) auto
      then obtain r2 s7 where "wait_echo h 1 t1 s6 = Some (r2, s7)" by auto
      with md w1 Inr tt2 show ?thesis
        by (cases r2) (auto simp: Let_def)
    qed
  qed
  with noexn show ?thesis by simp
qed

lemma measure_distance_chatgpt_value:
  assumes "measure_distance_chatgpt s = Some (Some d, s')"
  shows "2 \<le> d"
  using assms unfolding measure_distance_chatgpt_def
  by (auto simp: Let_def split: option.splits prod.splits sum.splits if_splits
      intro!: round_py_ge_2)

text \<open>
  Claim C2, as the code has it. With the handle initialised, the rise-wait and fall-wait
  loops of \<open>measure_distance_chatgpt\<close> have no timeout: the call returns exactly when a
  trigger write raises, or the echo line is read as something other than 0 (or the read
  raises) and, once it has risen, is later read as something other than 1 (or the read
  raises). There is no timeout result: a call that returns gives None or a distance of
  at least 2, never zero.
\<close>

theorem measure_distance_chatgpt_unbounded_wait:
  assumes "gpio_handle s = Some h"
  shows "((\<exists>res. measure_distance_chatgpt s = Some res) \<longleftrightarrow>
            isl (script s (tick s)) \<or> isl (script s (tick s + 1)) \<or>
            (\<exists>k \<ge> tick s + 2. script s k \<noteq> Inr 0 \<and>
               (\<forall>i. tick s + 2 \<le> i \<and> i < k \<longrightarrow> script s i = Inr 0) \<and>
               (isl (script s k) \<or> (\<exists>j > k. script s j \<noteq> Inr 1)))) \<and>
         (\<forall>d s'. measure_distance_chatgpt s = Some (Some d, s') \<longrightarrow> 2 \<le> d)"
  using measure_distance_chatgpt_returns_iff [OF assms] measure_distance_chatgpt_value
  unfolding echo_answers_def by blast

theorem measure_distance_chatgpt_unbounded_wait_witness:
  "gpio_handle echo_pulse = Some 7 \<and>
   (\<exists>s'. measure_distance_chatgpt echo_pulse = Some (Some (343 / 10), s')) \<and>
   (2::real) \<le> 343 / 10"
proof -
  have h: "gpio_handle echo_pulse = Some 7" by (simp add: echo_pulse_def idle_def)
  have v: "\<exists>s'. measure_distance_chatgpt echo_pulse = Some (Some (343 / 10), s')"
    by (simp add: measure_distance_chatgpt_def trigger_pulse_def echo_pulse_def idle_def
        lgpio_defs time_time_def wait_echo.simps round_py_def)
  from measure_distance_chatgpt_unbounded_wait [OF h] v have "(2::real) \<le> 343 / 10"
    by blast
  with h v show ?thesis by blast
qed

text \<open>
  Claim C2 as the specification words it fails when the sensor is disconnected: with
  the handle open and the echo line reading 0 at every poll, the rise-wait loop never
  ends and the call has no result at all, neither a timeout error nor zero.
\<close>

theorem measure_distance_chatgpt_blocks_counterexample:
  "gpio_handle echo_stuck_low = Some 7 \<and> measure_distance_chatgpt echo_stuck_low = None"
proof -
  have h: "gpio_handle echo_stuck_low = Some 7" by (simp add: echo_stuck_low_def idle_def)
  have "\<not> (\<exists>res. measure_distance_chatgpt echo_stuck_low = Some res)"
    unfolding measure_distance_chatgpt_returns_iff [OF h]
    by (simp add: echo_stuck_low_def idle_def echo_answers_def)
  then have "measure_distance_chatgpt echo_stuck_low = None"
    by (cases "measure_distance_chatgpt echo_stuck_low") auto
  with h show ?thesis by simp
qed

subsection \<open>Initialisation and cleanup\<close>

text \<open>
  Claim C3, evaluated where it fails. When the first \<^verbatim>\<open>gpiochip_open\<close> raises and
  the retry succeeds, \<open>init_gpio\<close> runs the cleanup, sleeps 0.5 s and opens the chip once
  more, and records the new handle, but it claims no pin: the retry path stops after
  \<^verbatim>\<open>gpiochip_open\<close>, whereas the first attempt, when it succeeds, claims all four
  pins. When the retry raises too, the handle is recorded as absent.
\<close>

theorem init_gpio_retry_claims_no_pin:
  "gpio_handle (init_gpio busy_then_free) = Some 7 \<and>
   claims (init_gpio busy_then_free) = [] \<and>
   calls (init_gpio busy_then_free) = [Gpiochip_open 0, Sleep (1 / 2), Gpiochip_open 0] \<and>
   claims (init_gpio idle) =
     [(7, 23, Output), (7, 24, Input), (7, 18, Output), (7, 17, Input)] \<and>
   gpio_handle (init_gpio always_busy) = None \<and>
   calls (init_gpio always_busy) = [Gpiochip_open 0, Sleep (1 / 2), Gpiochip_open 0]"
  by (simp add: init_gpio_def init_gpio_attempt_def cleanup_gpio_def lgpio_defs
      busy_then_free_def always_busy_def idle_def)

text \<open>
  Claim C8, as the code has it. \<open>cleanup_gpio\<close> has a result in every state (the only
  call that can raise sits in a \<^verbatim>\<open>try\<close>). With no handle recorded, in particular
  before any initialisation, it changes nothing. With a handle recorded and a close
  call that returns, it closes that handle, which releases its claims, and records the
  handle as absent. Whenever a call leaves the handle absent, a second call changes
  nothing. \<open>cleanup_gpio_pins\<close> has a result for every factory as well: with no factory
  it does nothing; with a factory it calls \<^verbatim>\<open>close\<close> once, at every call, and the pins
  are released when that close returns and kept when it raises; once a close has returned,
  the pins stay released whatever the next close does.
\<close>

theorem cleanup_gpio_closed:
  "(gpio_handle s = None \<longrightarrow> cleanup_gpio s = s) \<and>
   (\<forall>h. gpio_handle s = Some h \<and> \<not> isl (script s (tick s)) \<longrightarrow>
      gpio_handle (cleanup_gpio s) = None \<and>
      calls (cleanup_gpio s) = calls s @ [Gpiochip_close h] \<and>
      claims (cleanup_gpio s) = filter (\<lambda>(h', p, d). h' \<noteq> h) (claims s)) \<and>
   (gpio_handle (cleanup_gpio s) = None \<longrightarrow> cleanup_gpio (cleanup_gpio s) = cleanup_gpio s) \<and>
   cleanup_gpio_pins None = None \<and>
   (\<not> isl (close_script f (close_calls f)) \<longrightarrow>
      cleanup_gpio_pins (Some f) =
        Some (f\<lparr>pins_held := [], close_calls := Suc (close_calls f)\<rparr>) \<and>
      map_option pins_held (cleanup_gpio_pins (cleanup_gpio_pins (Some f))) = Some [] \<and>
      map_option close_calls (cleanup_gpio_pins (cleanup_gpio_pins (Some f))) =
        Some (Suc (Suc (close_calls f)))) \<and>
   (isl (close_script f (close_calls f)) \<longrightarrow>
      cleanup_gpio_pins (Some f) = Some (f\<lparr>close_calls := Suc (close_calls f)\<rparr>))"
proof -
  have a: "gpio_handle s = None \<longrightarrow> cleanup_gpio s = s"
    by (simp add: cleanup_gpio_def)
  have b: "\<forall>h. gpio_handle s = Some h \<and> \<not> isl (script s (tick s)) \<longrightarrow>
      gpio_handle (cleanup_gpio s) = None \<and>
      calls (cleanup_gpio s) = calls s @ [Gpiochip_close h] \<and>
      claims (cleanup_gpio s) = filter (\<lambda>(h', p, d). h' \<noteq> h) (claims s)"
    by (auto simp: cleanup_gpio_def lgpio_defs split: sum.splits)
  have c: "gpio_handle (cleanup_gpio s) = None \<longrightarrow>
      cleanup_gpio (cleanup_gpio s) = cleanup_gpio s"
    by (simp add: cleanup_gpio_def)
  have d: "cleanup_gpio_pins None = None"
    by (simp add: cleanup_gpio_pins_def)
  have e: "\<not> isl (close_script f (close_calls f)) \<longrightarrow>
      cleanup_gpio_pins (Some f) =
        Some (f\<lparr>pins_held := [], close_calls := Suc (close_calls f)\<rparr>) \<and>
      map_option pins_held (cleanup_gpio_pins (cleanup_gpio_pins (Some f))) = Some [] \<and>
      map_option close_calls (cleanup_gpio_pins (cleanup_gpio_pins (Some f))) =
        Some (Suc (Suc (close_calls f)))"
    by (auto simp: cleanup_gpio_pins_def factory_close_def split: sum.splits)
  have g: "isl (close_script f (close_calls f)) \<longrightarrow>
      cleanup_gpio_pins (Some f) = Some (f\<lparr>close_calls := Suc (close_calls f)\<rparr>)"
    by (auto simp: cleanup_gpio_pins_def factory_close_def split: sum.splits)
  from a b c d e g show ?thesis by blast
qed

theorem cleanup_gpio_closed_witness:
  "gpio_handle (cleanup_gpio opened) = None \<and> claims (cleanup_gpio opened) = [] \<and>
   calls (cleanup_gpio opened) = [Gpiochip_close 7] \<and>
   cleanup_gpio (cleanup_gpio opened) = cleanup_gpio opened \<and> cleanup_gpio idle = idle \<and>
   map_option pins_held (cleanup_gpio_pins (Some sticky_factory)) = Some [17, 18] \<and>
   map_option pins_held (cleanup_gpio_pins (Some (sticky_factory\<lparr>close_calls := 1\<rparr>))) = Some []"
  using cleanup_gpio_closed [of opened sticky_factory]
    cleanup_gpio_closed [of idle "sticky_factory\<lparr>close_calls := 1\<rparr>"]
  by (simp add: opened_def idle_def sticky_factory_def)

text \<open>
  Claim C8 as the specification words it fails in a state whose close call raises: the
  exception is swallowed before the handle is reset, so the handle stays recorded, and
  a second call, whose close succeeds, changes the state again. The same holds for
  \<open>cleanup_gpio_pins\<close>: after a first close that raises the pins are still held, and the
  second call, which closes again, releases them.
\<close>

theorem cleanup_gpio_close_raises_counterexample:
  "gpio_handle (cleanup_gpio close_fails_once) = Some 7 \<and>
   gpio_handle (cleanup_gpio (cleanup_gpio close_fails_once)) = None \<and>
   cleanup_gpio (cleanup_gpio close_fails_once) \<noteq> cleanup_gpio close_fails_once \<and>
   map_option pins_held (cleanup_gpio_pins (Some sticky_factory)) = Some [17, 18] \<and>
   map_option pins_held (cleanup_gpio_pins (cleanup_gpio_pins (Some sticky_factory))) = Some []"
proof -
  have a: "gpio_handle (cleanup_gpio close_fails_once) = Some 7"
    by (simp add: cleanup_gpio_def lgpio_defs close_fails_once_def opened_def idle_def)
  have b: "gpio_handle (cleanup_gpio (cleanup_gpio close_fails_once)) = None"
    by (simp add: cleanup_gpio_def lgpio_defs close_fails_once_def opened_def idle_def)
  from a b have c: "cleanup_gpio (cleanup_gpio close_fails_once) \<noteq> cleanup_gpio close_fails_once"
    by auto
  have d: "map_option pins_held (cleanup_gpio_pins (Some sticky_factory)) = Some [17, 18]"
    by (simp add: cleanup_gpio_pins_def factory_close_def sticky_factory_def)
  have e: "map_option pins_held (cleanup_gpio_pins (cleanup_gpio_pins (Some sticky_factory))) = Some []"
    by (simp add: cleanup_gpio_pins_def factory_close_def sticky_factory_def)
  from a b c d e show ?thesis by simp
qed

subsection \<open>Button default\<close>

text \<open>
  Claim C9. With the button line unavailable the two layers answer differently:
  \<open>read_button\<close> of hw\_layer.py returns True for an absent button object, while
  \<open>wait_for_button_press\<close> of hw\_layer\_chatgpt.py returns False at once, without any
  lgpio call, for an absent handle.
\<close>

theorem button_defaults_differ:
  "read_button None = True \<and>
   wait_for_button_press (s\<lparr>gpio_handle := None\<rparr>) = Some (False, s\<lparr>gpio_handle := None\<rparr>) \<and>
   Some (read_button None) \<noteq> map_option fst (wait_for_button_press (s\<lparr>gpio_handle := None\<rparr>))"
  by (simp add: read_button_def wait_for_button_press_def)

section \<open>Degraded mode and the thermal sensor\<close>

lemma read_temperature_chatgpt_cases:
  "read_temperature_chatgpt bus =
     (let t = bus_tick bus; cs = bus_calls bus in
      if isl (bus_script bus t) then
        ((None, None), bus\<lparr>bus_tick := t + 1, bus_calls := cs @ [SMBus_open 1]\<rparr>)
      else if \<not> mlx90614_imported bus then
        ((None, None), bus\<lparr>bus_tick := t + 1, bus_calls := cs @ [SMBus_open 1]\<rparr>)
      else if isl (bus_script bus (t + 1)) then
        ((None, None), bus\<lparr>bus_tick := t + 2, bus_calls := cs @ [SMBus_open 1, Get_ambient]\<rparr>)
      else if isl (bus_script bus (t + 2)) then
        ((None, None),
         bus\<lparr>bus_tick := t + 3, bus_calls := cs @ [SMBus_open 1, Get_ambient, Get_object_1]\<rparr>)
      else
        ((Some (round_py (projr (bus_script bus (t + 1))) 2),
          Some (round_py (projr (bus_script bus (t + 2))) 2)),
         bus\<lparr>bus_tick := t + 3, bus_calls := cs @ [SMBus_open 1, Get_ambient, Get_object_1]\<rparr>))"
  by (auto simp: read_temperature_chatgpt_def read_temperature_attempt_def smbus_call_def
      Let_def split: sum.splits)

lemma read_color_chatgpt_cases:
  "read_color_chatgpt cbus =
     (if isl (i2c_open cbus) \<or> \<not> tcs34725_imported cbus \<or> isl (color_raw cbus) \<or>
         isl (color_temperature cbus) \<or> isl (lux cbus)
      then None
      else (case projr (color_raw cbus) of (red, green, blue, c) \<Rightarrow>
              Some \<lparr>key_r = red, key_g = green, key_b = blue, key_clear = c,
                    key_color_temp = projr (color_temperature cbus),
                    key_lux = projr (lux cbus)\<rparr>))"
  by (auto simp: read_color_chatgpt_def read_color_attempt_def split: sum.splits)

text \<open>
  Claim C4, as the code has it. With the handle or the device object absent, no adapter
  raises: each has a result. The distance read returns None in hw\_layer\_chatgpt.py,
  without touching the hardware, and the pair (0, 0) in hw\_layer.py; the colour read of
  hw\_layer.py returns the label N/A; the thermal read of hw\_layer.py returns the fixed
  pair 25.0/25.0. The thermal and colour reads of hw\_layer\_chatgpt.py do not depend on
  the handle: the thermal read returns (None, None) exactly when opening the bus, the
  missing driver or one of the two reads raises, and two numbers otherwise; the colour
  read returns None exactly when one of its steps raises or the driver is missing, and
  the dictionary of the values read otherwise. The button read of hw\_layer.py returns
  True and the button wait of hw\_layer\_chatgpt.py returns False at once. Both buzzer
  operations do nothing, the display of hw\_layer.py prints its three fields between
  two rule lines instead of drawing, and the display of hw\_layer\_chatgpt.py draws
  nothing.
\<close>

theorem degraded_adapters:
  "measure_distance_chatgpt (s\<lparr>gpio_handle := None\<rparr>) = Some (None, s\<lparr>gpio_handle := None\<rparr>) \<and>
   measure_distance None samples = Inr (0, 0) \<and>
   read_temperature None = (Inr \<lparr>ambient = 25, object = 25\<rparr>, None) \<and>
   read_color None = ''N/A'' \<and>
   (fst (read_temperature_chatgpt bus) = (None, None) \<longleftrightarrow>
      isl (bus_script bus (bus_tick bus)) \<or> \<not> mlx90614_imported bus \<or>
      isl (bus_script bus (bus_tick bus + 1)) \<or> isl (bus_script bus (bus_tick bus + 2))) \<and>
   (fst (read_temperature_chatgpt bus) \<noteq> (None, None) \<longleftrightarrow>
      (\<exists>a ob. bus_script bus (bus_tick bus + 1) = Inr a \<and>
         bus_script bus (bus_tick bus + 2) = Inr ob \<and>
         fst (read_temperature_chatgpt bus) = (Some (round_py a 2), Some (round_py ob 2)))) \<and>
   (read_color_chatgpt cbus = None \<longleftrightarrow>
      isl (i2c_open cbus) \<or> \<not> tcs34725_imported cbus \<or> isl (color_raw cbus) \<or>
      isl (color_temperature cbus) \<or> isl (lux cbus)) \<and>
   (read_color_chatgpt cbus \<noteq> None \<longleftrightarrow>
      (\<exists>red green blue c ct l. color_raw cbus = Inr (red, green, blue, c) \<and>
         color_temperature cbus = Inr ct \<and> lux cbus = Inr l \<and>
         read_color_chatgpt cbus =
           Some \<lparr>key_r = red, key_g = green, key_b = blue, key_clear = c,
                 key_color_temp = ct, key_lux = l\<rparr>)) \<and>
   read_button None = True \<and>
   wait_for_button_press (s\<lparr>gpio_handle := None\<rparr>) = Some (False, s\<lparr>gpio_handle := None\<rparr>) \<and>
   buzzer_beep None duration = Inr [] \<and>
   beep duration (s\<lparr>gpio_handle := None\<rparr>) = s\<lparr>gpio_handle := None\<rparr> \<and>
   update_physical_oled None distance shape material =
     Printed (''--- OLED Sim ---'' @ [CHR 0x0A] @ ''Dist: '' @ distance @ [CHR 0x0A]
       @ ''Shape: '' @ shape @ [CHR 0x0A] @ ''Mat: '' @ material @ [CHR 0x0A]
       @ ''----------------'') \<and>
   oled_display_message None lines = []"
proof -
  have a: "measure_distance_chatgpt (s\<lparr>gpio_handle := None\<rparr>) =
      Some (None, s\<lparr>gpio_handle := None\<rparr>)"
    by (simp add: measure_distance_chatgpt_def)
  have b: "measure_distance None samples = Inr (0, 0)"
    "read_temperature None = (Inr \<lparr>ambient = 25, object = 25\<rparr>, None)"
    "read_color None = ''N/A''"
    by (simp_all add: measure_distance_def read_temperature_def read_color_def)
  have c: "fst (read_temperature_chatgpt bus) = (None, None) \<longleftrightarrow>
      isl (bus_script bus (bus_tick bus)) \<or> \<not> mlx90614_imported bus \<or>
      isl (bus_script bus (bus_tick bus + 1)) \<or> isl (bus_script bus (bus_tick bus + 2))"
    by (simp add: read_temperature_chatgpt_cases Let_def)
  have d: "fst (read_temperature_chatgpt bus) \<noteq> (None, None) \<longleftrightarrow>
      (\<exists>a ob. bus_script bus (bus_tick bus + 1) = Inr a \<and>
         bus_script bus (bus_tick bus + 2) = Inr ob \<and>
         fst (read_temperature_chatgpt bus) = (Some (round_py a 2), Some (round_py ob 2)))"
    by (cases "bus_script bus (bus_tick bus + 1)"; cases "bus_script bus (bus_tick bus + 2)")
      (auto simp: read_temperature_chatgpt_cases Let_def)
  have e: "read_color_chatgpt cbus = None \<longleftrightarrow>
      isl (i2c_open cbus) \<or> \<not> tcs34725_imported cbus \<or> isl (color_raw cbus) \<or>
      isl (color_temperature cbus) \<or> isl (lux cbus)"
    by (simp add: read_color_chatgpt_cases split: prod.splits)
  have f: "read_color_chatgpt cbus \<noteq> None \<longleftrightarrow>
      (\<exists>red green blue c ct l. color_raw cbus = Inr (red, green, blue, c) \<and>
         color_temperature cbus = Inr ct \<and> lux cbus = Inr l \<and>
         read_color_chatgpt cbus =
           Some \<lparr>key_r = red, key_g = green, key_b = blue, key_clear = c,
                 key_color_temp = ct, key_lux = l\<rparr>)"
    by (auto simp: read_color_chatgpt_def read_color_attempt_def split: sum.splits)
  have g: "read_button None = True"
    "wait_for_button_press (s\<lparr>gpio_handle := None\<rparr>) = Some (False, s\<lparr>gpio_handle := None\<rparr>)"
    "buzzer_beep None duration = Inr []"
    "beep duration (s\<lparr>gpio_handle := None\<rparr>) = s\<lparr>gpio_handle := None\<rparr>"
    "oled_display_message None lines = []"
    by (simp_all add: read_button_def wait_for_button_press_def buzzer_beep_def beep_def
        oled_display_message_def)
  have h: "update_physical_oled None distance shape material =
     Printed (''--- OLED Sim ---'' @ [CHR 0x0A] @ ''Dist: '' @ distance @ [CHR 0x0A]
       @ ''Shape: '' @ shape @ [CHR 0x0A] @ ''Mat: '' @ material @ [CHR 0x0A]
       @ ''----------------'')"
    by (simp add: update_physical_oled_def)
  from a b c d e f g h show ?thesis by blast
qed

theorem degraded_adapters_witness:
  "fst (read_temperature_chatgpt dead_bus) = (None, None) \<and>
   fst (read_temperature_chatgpt driverless_bus) = (None, None) \<and>
   fst (read_temperature_chatgpt flaky_bus) = (None, None) \<and>
   fst (read_temperature_chatgpt working_bus) = (Some (215 / 10), Some (366 / 10)) \<and>
   read_color_chatgpt dark_color_bus = None \<and>
   read_color_chatgpt working_color_bus =
     Some \<lparr>key_r = 10, key_g = 20, key_b = 30, key_clear = 60, key_color_temp = 5000,
           key_lux = 120\<rparr> \<and>
   beep (1 / 10) idle = idle"
proof -
  have a: "fst (read_temperature_chatgpt dead_bus) = (None, None)"
    using degraded_adapters [of idle 10 dead_bus dark_color_bus "1 / 10"]
    by (simp add: dead_bus_def)
  have b: "fst (read_temperature_chatgpt driverless_bus) = (None, None)"
    using degraded_adapters [of idle 10 driverless_bus dark_color_bus "1 / 10"]
    by (simp add: driverless_bus_def working_bus_def)
  have c: "fst (read_temperature_chatgpt flaky_bus) = (None, None)"
    using degraded_adapters [of idle 10 flaky_bus dark_color_bus "1 / 10"]
    by (simp add: flaky_bus_def working_bus_def)
  have d: "fst (read_temperature_chatgpt working_bus) = (Some (215 / 10), Some (366 / 10))"
    by (simp add: read_temperature_chatgpt_cases Let_def working_bus_def round_py_def)
  have e: "read_color_chatgpt dark_color_bus = None"
    using degraded_adapters [of idle 10 dead_bus dark_color_bus "1 / 10"]
    by (simp add: dark_color_bus_def working_color_bus_def)
  have f: "read_color_chatgpt working_color_bus =
     Some \<lparr>key_r = 10, key_g = 20, key_b = 30, key_clear = 60, key_color_temp = 5000,
           key_lux = 120\<rparr>"
    by (simp add: read_color_chatgpt_def read_color_attempt_def working_color_bus_def)
  have g: "beep (1 / 10) idle = idle"
    using degraded_adapters [of idle 10 dead_bus dark_color_bus "1 / 10"]
    by (simp add: idle_def)
  from a b c d e f g show ?thesis by simp
qed

text \<open>
  Claim C4 as the specification words it fails for both thermal reads. In hw\_layer.py
  an absent sensor gives 25.0/25.0, exactly what a sensor at room temperature gives,
  so the result does not mark the reading as unavailable. In hw\_layer\_chatgpt.py the
  thermal read never looks at the handle and returns the reading of a working bus
  whether or not the handle was ever initialised; the colour read does the same.
\<close>

theorem read_temperature_absent_counterexample:
  "fst (read_temperature None) = Inr \<lparr>ambient = 25, object = 25\<rparr> \<and>
   fst (read_temperature (Some room_sensor)) = Inr \<lparr>ambient = 25, object = 25\<rparr> \<and>
   gpio_handle always_busy = None \<and>
   gpio_handle (init_gpio always_busy) = None \<and>
   fst (read_temperature_chatgpt working_bus) = (Some (215 / 10), Some (366 / 10)) \<and>
   read_color_chatgpt working_color_bus =
     Some \<lparr>key_r = 10, key_g = 20, key_b = 30, key_clear = 60, key_color_temp = 5000,
           key_lux = 120\<rparr>"
proof -
  have a: "fst (read_temperature None) = Inr \<lparr>ambient = 25, object = 25\<rparr>"
    "fst (read_temperature (Some room_sensor)) = Inr \<lparr>ambient = 25, object = 25\<rparr>"
    by (simp_all add: read_temperature_def getFrame_def room_sensor_def round_py_def
        sum_list_replicate)
  have b: "gpio_handle always_busy = None" "gpio_handle (init_gpio always_busy) = None"
    by (simp_all add: init_gpio_def init_gpio_attempt_def cleanup_gpio_def lgpio_defs
        always_busy_def idle_def)
  have c: "fst (read_temperature_chatgpt working_bus) = (Some (215 / 10), Some (366 / 10))"
    by (simp add: read_temperature_chatgpt_cases Let_def working_bus_def round_py_def)
  have d: "read_color_chatgpt working_color_bus =
     Some \<lparr>key_r = 10, key_g = 20, key_b = 30, key_clear = 60, key_color_temp = 5000,
           key_lux = 120\<rparr>"
    by (simp add: read_color_chatgpt_def read_color_attempt_def working_color_bus_def)
  from a b c d show ?thesis by simp
qed

text \<open>
  Claim C7, as the code has it. In hw\_layer.py an absent thermal sensor gives the fixed
  pair 25.0/25.0, and an OSError during the read, from the frame or from the ambient
  value, gives the pair 0/0 after a single frame read, with no retry. In
  hw\_layer\_chatgpt.py a bus that cannot be opened, a missing driver, and a raising read
  of the ambient or of the object temperature each give the pair (None, None), which is
  not a number; the bus calls stop at the one that raised and none is repeated. A read
  in which nothing raises gives the two values rounded to two decimals after exactly
  one open and one read of each value.
\<close>

theorem read_temperature_failures:
  "read_temperature None = (Inr \<lparr>ambient = 25, object = 25\<rparr>, None) \<and>
   (frames m (frame_calls m) = Inl OSError \<or>
    (\<exists>temps. frames m (frame_calls m) = Inr temps) \<and> temperature_ambient m = Inl OSError \<longrightarrow>
      read_temperature (Some m) =
        (Inr \<lparr>ambient = 0, object = 0\<rparr>, Some (m\<lparr>frame_calls := Suc (frame_calls m)\<rparr>))) \<and>
   (isl (bus_script bus (bus_tick bus)) \<or> \<not> mlx90614_imported bus \<longrightarrow>
      read_temperature_chatgpt bus =
        ((None, None),
         bus\<lparr>bus_tick := bus_tick bus + 1, bus_calls := bus_calls bus @ [SMBus_open 1]\<rparr>)) \<and>
   (\<not> isl (bus_script bus (bus_tick bus)) \<and> mlx90614_imported bus \<and>
    isl (bus_script bus (bus_tick bus + 1)) \<longrightarrow>
      read_temperature_chatgpt bus =
        ((None, None),
         bus\<lparr>bus_tick := bus_tick bus + 2,
             bus_calls := bus_calls bus @ [SMBus_open 1, Get_ambient]\<rparr>)) \<and>
   (\<not> isl (bus_script bus (bus_tick bus)) \<and> mlx90614_imported bus \<and>
    \<not> isl (bus_script bus (bus_tick bus + 1)) \<and> isl (bus_script bus (bus_tick bus + 2)) \<longrightarrow>
      read_temperature_chatgpt bus =
        ((None, None),
         bus\<lparr>bus_tick := bus_tick bus + 3,
             bus_calls := bus_calls bus @ [SMBus_open 1, Get_ambient, Get_object_1]\<rparr>)) \<and>
   (\<forall>a ob. \<not> isl (bus_script bus (bus_tick bus)) \<and> mlx90614_imported bus \<and>
      bus_script bus (bus_tick bus + 1) = Inr a \<and> bus_script bus (bus_tick bus + 2) = Inr ob \<longrightarrow>
      read_temperature_chatgpt bus =
        ((Some (round_py a 2), Some (round_py ob 2)),
         bus\<lparr>bus_tick := bus_tick bus + 3,
             bus_calls := bus_calls bus @ [SMBus_open 1, Get_ambient, Get_object_1]\<rparr>))"
proof -
  have a: "read_temperature None = (Inr \<lparr>ambient = 25, object = 25\<rparr>, None)"
    by (simp add: read_temperature_def)
  have b: "frames m (frame_calls m) = Inl OSError \<or>
    (\<exists>temps. frames m (frame_calls m) = Inr temps) \<and> temperature_ambient m = Inl OSError \<longrightarrow>
      read_temperature (Some m) =
        (Inr \<lparr>ambient = 0, object = 0\<rparr>, Some (m\<lparr>frame_calls := Suc (frame_calls m)\<rparr>))"
    by (auto simp: read_temperature_def getFrame_def)
  have c: "isl (bus_script bus (bus_tick bus)) \<or> \<not> mlx90614_imported bus \<longrightarrow>
      read_temperature_chatgpt bus =
        ((None, None),
         bus\<lparr>bus_tick := bus_tick bus + 1, bus_calls := bus_calls bus @ [SMBus_open 1]\<rparr>)"
    by (simp add: read_temperature_chatgpt_cases Let_def)
  have d: "\<not> isl (bus_script bus (bus_tick bus)) \<and> mlx90614_imported bus \<and>
    isl (bus_script bus (bus_tick bus + 1)) \<longrightarrow>
      read_temperature_chatgpt bus =
        ((None, None),
         bus\<lparr>bus_tick := bus_tick bus + 2,
             bus_calls := bus_calls bus @ [SMBus_open 1, Get_ambient]\<rparr>)"
    by (simp add: read_temperature_chatgpt_cases Let_def)
  have e: "\<not> isl (bus_script bus (bus_tick bus)) \<and> mlx90614_imported bus \<and>
    \<not> isl (bus_script bus (bus_tick bus + 1)) \<and> isl (bus_script bus (bus_tick bus + 2)) \<longrightarrow>
      read_temperature_chatgpt bus =
        ((None, None),
         bus\<lparr>bus_tick := bus_tick bus + 3,
             bus_calls := bus_calls bus @ [SMBus_open 1, Get_ambient, Get_object_1]\<rparr>)"
    by (simp add: read_temperature_chatgpt_cases Let_def)
  have f: "\<forall>a ob. \<not> isl (bus_script bus (bus_tick bus)) \<and> mlx90614_imported bus \<and>
      bus_script bus (bus_tick bus + 1) = Inr a \<and> bus_script bus (bus_tick bus + 2) = Inr ob \<longrightarrow>
      read_temperature_chatgpt bus =
        ((Some (round_py a 2), Some (round_py ob 2)),
         bus\<lparr>bus_tick := bus_tick bus + 3,
             bus_calls := bus_calls bus @ [SMBus_open 1, Get_ambient, Get_object_1]\<rparr>)"
    by (simp add: read_temperature_chatgpt_cases Let_def)
  from a b c d e f show ?thesis by blast
qed

theorem read_temperature_failures_witness:
  "read_temperature (Some bus_error_sensor) =
     (Inr \<lparr>ambient = 0, object = 0\<rparr>, Some (bus_error_sensor\<lparr>frame_calls := 1\<rparr>)) \<and>
   read_temperature (Some ambient_error_sensor) =
     (Inr \<lparr>ambient = 0, object = 0\<rparr>, Some (ambient_error_sensor\<lparr>frame_calls := 1\<rparr>)) \<and>
   read_temperature_chatgpt dead_bus =
     ((None, None), dead_bus\<lparr>bus_tick := 1, bus_calls := [SMBus_open 1]\<rparr>) \<and>
   read_temperature_chatgpt driverless_bus =
     ((None, None), driverless_bus\<lparr>bus_tick := 1, bus_calls := [SMBus_open 1]\<rparr>) \<and>
   read_temperature_chatgpt (dead_bus\<lparr>bus_script := (\<lambda>k. if k = 0 then Inr 0 else Inl OSError)\<rparr>) =
     ((None, None),
      dead_bus\<lparr>bus_script := (\<lambda>k. if k = 0 then Inr 0 else Inl OSError), bus_tick := 2,
               bus_calls := [SMBus_open 1, Get_ambient]\<rparr>) \<and>
   read_temperature_chatgpt flaky_bus =
     ((None, None),
      flaky_bus\<lparr>bus_tick := 3, bus_calls := [SMBus_open 1, Get_ambient, Get_object_1]\<rparr>) \<and>
   read_temperature_chatgpt working_bus =
     ((Some (215 / 10), Some (366 / 10)),
      working_bus\<lparr>bus_tick := 3, bus_calls := [SMBus_open 1, Get_ambient, Get_object_1]\<rparr>)"
proof -
  have a: "read_temperature (Some bus_error_sensor) =
     (Inr \<lparr>ambient = 0, object = 0\<rparr>, Some (bus_error_sensor\<lparr>frame_calls := 1\<rparr>))"
    using read_temperature_failures [of bus_error_sensor dead_bus]
    by (simp add: bus_error_sensor_def)
  have b: "read_temperature (Some ambient_error_sensor) =
     (Inr \<lparr>ambient = 0, object = 0\<rparr>, Some (ambient_error_sensor\<lparr>frame_calls := 1\<rparr>))"
    using read_temperature_failures [of ambient_error_sensor dead_bus]
    by (simp add: ambient_error_sensor_def)
  have c: "read_temperature_chatgpt dead_bus =
     ((None, None), dead_bus\<lparr>bus_tick := 1, bus_calls := [SMBus_open 1]\<rparr>)"
    using read_temperature_failures [of room_sensor dead_bus]
    by (simp add: dead_bus_def)
  have d: "read_temperature_chatgpt driverless_bus =
     ((None, None), driverless_bus\<lparr>bus_tick := 1, bus_calls := [SMBus_open 1]\<rparr>)"
    using read_temperature_failures [of room_sensor driverless_bus]
    by (simp add: driverless_bus_def working_bus_def)
  have e: "read_temperature_chatgpt
       (dead_bus\<lparr>bus_script := (\<lambda>k. if k = 0 then Inr 0 else Inl OSError)\<rparr>) =
     ((None, None),
      dead_bus\<lparr>bus_script := (\<lambda>k. if k = 0 then Inr 0 else Inl OSError), bus_tick := 2,
               bus_calls := [SMBus_open 1, Get_ambient]\<rparr>)"
    using read_temperature_failures
      [of room_sensor "dead_bus\<lparr>bus_script := (\<lambda>k. if k = 0 then Inr 0 else Inl OSError)\<rparr>"]
    by (simp add: dead_bus_def)
  have f: "read_temperature_chatgpt flaky_bus =
     ((None, None),
      flaky_bus\<lparr>bus_tick := 3, bus_calls := [SMBus_open 1, Get_ambient, Get_object_1]\<rparr>)"
    using read_temperature_failures [of room_sensor flaky_bus]
    by (simp add: flaky_bus_def working_bus_def)
  have "\<not> isl (bus_script working_bus (bus_tick working_bus)) \<and>
      mlx90614_imported working_bus \<and>
      bus_script working_bus (bus_tick working_bus + 1) = Inr (215 / 10) \<and>
      bus_script working_bus (bus_tick working_bus + 2) = Inr (366 / 10) \<longrightarrow>
      read_temperature_chatgpt working_bus =
        ((Some (round_py (215 / 10) 2), Some (round_py (366 / 10) 2)),
         working_bus\<lparr>bus_tick := bus_tick working_bus + 3,
             bus_calls := bus_calls working_bus @ [SMBus_open 1, Get_ambient, Get_object_1]\<rparr>)"
    using read_temperature_failures [of room_sensor working_bus] by blast
  then have g: "read_temperature_chatgpt working_bus =
     ((Some (215 / 10), Some (366 / 10)),
      working_bus\<lparr>bus_tick := 3, bus_calls := [SMBus_open 1, Get_ambient, Get_object_1]\<rparr>)"
    by (simp add: working_bus_def round_py_def)
  from a b c d e f g show ?thesis by simp
qed

text \<open>
  Claim C7 as the specification words it fails for hw\_layer.py: a bus error during the
  read gives the pair 0/0, the same result as a sensor that measures 0 degrees.
\<close>

theorem read_temperature_zero_counterexample:
  "fst (read_temperature (Some bus_error_sensor)) = Inr \<lparr>ambient = 0, object = 0\<rparr> \<and>
   fst (read_temperature (Some freezing_sensor)) = Inr \<lparr>ambient = 0, object = 0\<rparr>"
  by (simp add: read_temperature_def getFrame_def bus_error_sensor_def freezing_sensor_def
      sum_list_replicate)

end
